theory Spec2Isabelle
  imports Complex_Main
begin

text \<open>
  The registration and password recovery routes of the SUTUTEH member portal
  (\<^verbatim>\<open>consultas/registro.js\<close>, \<^verbatim>\<open>consultas/recuperarContrasena.js\<close>): a six-digit code
  is signed, hashed and stored with its issue time on the member's row, mailed to the member,
  and checked against the stored hash within ten minutes; passwords are screened against a
  breach service. The handlers are functions from the request and the stored state to the
  response and the new state.
\<close>

section \<open>Strings as the handlers use them\<close>

text \<open>
  A JavaScript string is modelled as the list of its code units, each of them below 256 (the
  Latin-1 range of UTF-16); a \<^typ>\<open>char\<close> is one code unit, not a byte of an encoding. On these
  strings the functions below are the built-in ones.
\<close>

text \<open>
  \<^verbatim>\<open>String.prototype.toLowerCase\<close>: the letters that have a lower-case form are
  \<^verbatim>\<open>A\<close> to \<^verbatim>\<open>Z\<close> (65 to 90) and U+00C0 to U+00DE without the multiplication sign U+00D7;
  each is 32 below its lower-case form.
\<close>

definition toLowerCase :: "string \<Rightarrow> string" where
  "toLowerCase s =
     map (\<lambda>c. let n = (of_char c :: nat)
              in if (65 \<le> n \<and> n \<le> 90) \<or> (192 \<le> n \<and> n \<le> 222 \<and> n \<noteq> 215)
                 then char_of (n + 32) else c) s"

text \<open>
  \<^verbatim>\<open>String.prototype.toUpperCase\<close> on a string whose cased letters are ASCII, as the
  hexadecimal digest is to which it is applied.
\<close>

definition toUpperCase :: "string \<Rightarrow> string" where
  "toUpperCase s =
     map (\<lambda>c. let n = (of_char c :: nat) in if 97 \<le> n \<and> n \<le> 122 then char_of (n - 32) else c) s"

text \<open>
  White space and line terminators, as \<^verbatim>\<open>trim\<close> and \<^verbatim>\<open>parseInt\<close> skip them: tab, line
  feed, vertical tab, form feed, carriage return, space and the no-break space U+00A0.
\<close>

definition isWhiteSpace :: "char \<Rightarrow> bool" where
  "isWhiteSpace c \<longleftrightarrow> (let n = (of_char c :: nat) in (9 \<le> n \<and> n \<le> 13) \<or> n = 32 \<or> n = 160)"

text \<open>\<^verbatim>\<open>String.prototype.trim\<close>: white space is removed at both ends.\<close>

definition trim :: "string \<Rightarrow> string" where
  "trim s = rev (dropWhile isWhiteSpace (rev (dropWhile isWhiteSpace s)))"

text \<open>
  \<^verbatim>\<open>s.split(d)\<close> for a one-character separator: the result always has at least one
  element, and \<open>n\<close> separators give \<open>n + 1\<close> pieces.
\<close>

fun split :: "char \<Rightarrow> string \<Rightarrow> string list" where
  "split d [] = [[]]"
| "split d (c # cs) =
     (if c = d then [] # split d cs
      else (case split d cs of [] \<Rightarrow> [[c]] | p # ps \<Rightarrow> (c # p) # ps))"

definition isDigit :: "char \<Rightarrow> bool" where
  "isDigit c \<longleftrightarrow> (let n = (of_char c :: nat) in 48 \<le> n \<and> n \<le> 57)"

definition digitsValue :: "string \<Rightarrow> nat" where
  "digitsValue ds = foldl (\<lambda>a c. 10 * a + ((of_char c :: nat) - 48)) 0 ds"

text \<open>
  \<^verbatim>\<open>parseInt(s, 10)\<close>: leading white space and one optional sign are skipped, then the
  longest prefix of decimal digits is read; \<open>None\<close> stands for \<^verbatim>\<open>NaN\<close>. The value is
  an unbounded integer here; rounding to a double never changes its sign, which is all that
  the caller looks at.
\<close>

definition parseInt :: "string \<Rightarrow> int option" where
  "parseInt s =
     (let t = dropWhile isWhiteSpace s;
          neg = (case t of [] \<Rightarrow> False | c # _ \<Rightarrow> c = CHR ''-'');
          u = (case t of [] \<Rightarrow> [] | c # r \<Rightarrow> if c = CHR ''-'' \<or> c = CHR ''+'' then r else t);
          ds = takeWhile isDigit u
      in if ds = [] then None
         else Some (if neg then - int (digitsValue ds) else int (digitsValue ds)))"

text \<open>\<^verbatim>\<open>x > 0\<close> on the result of \<^verbatim>\<open>parseInt\<close>: every comparison with \<^verbatim>\<open>NaN\<close> is false.\<close>

definition gt0 :: "int option \<Rightarrow> bool" where
  "gt0 v = (case v of None \<Rightarrow> False | Some n \<Rightarrow> n > 0)"

text \<open>
  \<^verbatim>\<open>s.replace(pat, rep)\<close> with a string pattern: only the first occurrence is replaced.
  The replacement strings used below are decimal numerals, so no \<^verbatim>\<open>$\<close> pattern of the
  replacement is involved.
\<close>

fun replace :: "string \<Rightarrow> string \<Rightarrow> string \<Rightarrow> string" where
  "replace pat rep [] = (if pat = [] then rep else [])"
| "replace pat rep (c # cs) =
     (if take (length pat) (c # cs) = pat then rep @ drop (length pat) (c # cs)
      else c # replace pat rep cs)"

text \<open>\<^verbatim>\<open>n.toString()\<close> for a non-negative integer: its decimal numeral.\<close>

fun toString :: "nat \<Rightarrow> string" where
  "toString n =
     (if n < 10 then [''0123456789'' ! n]
      else toString (n div 10) @ [''0123456789'' ! (n mod 10)])"

declare toString.simps [simp del]


section \<open>External collaborators\<close>

text \<open>
  The libraries and services the handlers call are not part of the repository. They are
  parameters of the model: the JWT signer (with the server secret), bcrypt, SHA-1, the HTTP
  client that reaches the breach service, the mail transport, the field validators of
  express-validator, and the values read from the process environment and the template files.
  The connection pool is taken to be available: a rejected query is outside the model.
\<close>

datatype http_result = Rejected | Response string

datatype subject = Tu_codigo_de_verificacion_SUTUTEH | Codigo_de_Recuperacion_de_Contrasena_SUTUTEH

record mail =
  mail_from :: string
  mail_to :: string
  mail_subject :: subject
  mail_html :: string

record env =
  jwt_sign :: "string \<Rightarrow> string"
  bcrypt_hash :: "string \<Rightarrow> string \<Rightarrow> string"
  bcrypt_compare :: "string \<Rightarrow> string \<Rightarrow> bool"
  sha1_hex :: "string \<Rightarrow> string"
  axios_get :: "string \<Rightarrow> http_result"
  sendMail :: "mail \<Rightarrow> bool"
  isEmail :: "string \<Rightarrow> bool"
  isISO8601 :: "string \<Rightarrow> bool"
  isInt :: "string \<Rightarrow> bool"
  EMAIL_USER :: string
  htmlTemplate :: string
  recoveryHtmlTemplate :: string


section \<open>Breach checker\<close>

text \<open>
  The loop of \<^verbatim>\<open>isPasswordPwned\<close> over the lines of the response. The first line whose
  trimmed first field equals the suffix decides. \<open>None\<close> is the \<^verbatim>\<open>TypeError\<close> of
  \<^verbatim>\<open>count.trim()\<close> when that line has no second field.
\<close>

fun scanLines :: "string \<Rightarrow> string list \<Rightarrow> bool option" where
  "scanLines suffix [] = Some False"
| "scanLines suffix (line # lines) =
     (case split CHR '':'' line of
        [] \<Rightarrow> None
      | hashSuffix # others \<Rightarrow>
          if trim hashSuffix = suffix then
            (case others of
               [] \<Rightarrow> None
             | count # _ \<Rightarrow> Some (gt0 (parseInt (trim count))))
          else scanLines suffix lines)"

definition isPasswordPwned :: "env \<Rightarrow> string \<Rightarrow> bool" where
  "isPasswordPwned e password =
     (let sha1Hash = toUpperCase (sha1_hex e password);
          prefix = take 5 sha1Hash;
          suffix = drop 5 sha1Hash
      in case axios_get e (''https://api.pwnedpasswords.com/range/'' @ prefix) of
           Rejected \<Rightarrow> False
         | Response data \<Rightarrow>
             (case scanLines suffix (split (CHR 0x0A) data) of
                None \<Rightarrow> False
              | Some b \<Rightarrow> b))"


section \<open>Data model\<close>

text \<open>
  The rows of \<^verbatim>\<open>autenticacion_usuarios\<close> and \<^verbatim>\<open>perfil_usuarios\<close>, with the columns the
  handlers read or write. \<open>None\<close> is SQL \<^verbatim>\<open>NULL\<close>. A \<^verbatim>\<open>DATETIME\<close> is the number of
  milliseconds since the epoch that the driver's \<^verbatim>\<open>Date\<close> object holds. Profile columns
  hold the bound parameter as it was sent.
\<close>

record auth_row =
  id_a :: nat
  correo_electronico :: string
  contrasena :: "string option"
  registro_completado :: int
  estatus :: string
  verificado :: int
  codigo_verificacion :: "string option"
  fecha_codigo_verificacion :: "int option"
  fecha_actualizacion :: "int option"

record perfil_row =
  id_p :: nat
  fecha_nacimiento :: string
  nombre :: "string option"
  apellido_paterno :: "string option"
  apellido_materno :: "string option"
  genero :: "string option"
  curp :: "string option"
  telefono :: "string option"
  universidad_id :: "string option"
  puesto_id :: "string option"
  programa_id :: "string option"
  nivel_id :: "string option"
  numero_trabajador :: "string option"
  rol_sindicato_id :: "int option"
  antiguedad :: "string option"

text \<open>What a request can change: the two tables and the mail that was handed to the transport.\<close>

record world =
  autenticacion_usuarios :: "auth_row list"
  perfil_usuarios :: "perfil_row list"
  outbox :: "mail list"

text \<open>
  \<^verbatim>\<open>req.body\<close>, with the keys that some handler reads. A key that is absent is the empty
  string for the validators; the two optional keys are \<open>None\<close> when absent.
\<close>

record body =
  body_correo_electronico :: string
  body_fecha_nacimiento :: string
  body_codigo :: string
  body_password :: string
  body_firstName :: string
  body_lastName :: string
  body_maternalLastName :: string
  body_gender :: string
  body_curp :: string
  body_phone :: string
  body_universityOrigin :: string
  body_universityPosition :: string
  body_educationalProgram :: "string option"
  body_workerNumber :: string
  body_educationalLevel :: string
  body_antiguedad :: "string option"
  body_email :: string
  body_confirmPassword :: string

text \<open>The messages of the JSON responses, named after their text.\<close>

datatype msg =
    Correo_invalido
  | Fecha_invalida
  | Codigo_debe_tener_6_digitos
  | La_contrasena_debe_tener_al_menos_8_caracteres
  | Nombre_requerido
  | Apellido_paterno_requerido
  | Apellido_materno_requerido
  | Genero_invalido
  | CURP_debe_tener_18_caracteres
  | Telefono_debe_tener_10_digitos
  | Universidad_invalida
  | Puesto_invalido
  | Programa_invalido
  | Numero_de_trabajador_requerido
  | Nivel_educativo_invalido
  | Fecha_de_antiguedad_invalida
  | Usuario_no_encontrado
  | Usuario_ya_registrado
  | Codigo_de_verificacion_enviado_exitosamente
  | Error_interno_al_enviar_el_codigo
  | El_codigo_ha_expirado
  | Codigo_incorrecto
  | Codigo_verificado_correctamente
  | Error_interno_al_validar_el_codigo
  | Usuario_actualizado_y_registro_completado
  | Correo_electronico_invalido
  | El_codigo_debe_tener_6_digitos
  | Confirmacion_de_contrasena_requerida
  | Usuario_no_valido_para_recuperacion_de_contrasena
  | Codigo_de_recuperacion_enviado_exitosamente
  | Error_interno_al_enviar_el_codigo_de_recuperacion
  | Usuario_no_encontrado_R
  | No_se_ha_solicitado_recuperacion_de_contrasena
  | El_codigo_ha_expirado_Solicite_uno_nuevo
  | Codigo_incorrecto_Verifique_e_intente_nuevamente
  | Codigo_verificado_correctamente_Puede_proceder
  | Error_interno_al_verificar_el_codigo
  | Las_contrasenas_no_coinciden
  | La_contrasena_debe_incluir_mayusculas_minusculas_numeros_y_especiales
  | Esta_contrasena_ha_sido_comprometida
  | Debe_verificar_el_codigo_de_recuperacion
  | El_proceso_de_recuperacion_ha_expirado
  | Contrasena_actualizada_exitosamente

datatype json = Message msg | Error msg | Errors "msg list"

datatype response = Res nat json


section \<open>Queries\<close>

text \<open>\<^verbatim>\<open>SELECT ... FROM autenticacion_usuarios WHERE correo_electronico = ?\<close>\<close>

definition selectByEmail :: "world \<Rightarrow> string \<Rightarrow> auth_row list" where
  "selectByEmail w correo = filter (\<lambda>a. correo_electronico a = correo) (autenticacion_usuarios w)"

text \<open>\<^verbatim>\<open>UPDATE autenticacion_usuarios SET ... WHERE id = ?\<close>\<close>

definition updateAuth :: "nat \<Rightarrow> (auth_row \<Rightarrow> auth_row) \<Rightarrow> world \<Rightarrow> world" where
  "updateAuth userId f w =
     w\<lparr>autenticacion_usuarios :=
         map (\<lambda>a. if id_a a = userId then f a else a) (autenticacion_usuarios w)\<rparr>"

text \<open>\<^verbatim>\<open>UPDATE perfil_usuarios SET ... WHERE id = ?\<close>\<close>

definition updatePerfil :: "nat \<Rightarrow> (perfil_row \<Rightarrow> perfil_row) \<Rightarrow> world \<Rightarrow> world" where
  "updatePerfil userId f w =
     w\<lparr>perfil_usuarios :=
         map (\<lambda>p. if id_p p = userId then f p else p) (perfil_usuarios w)\<rparr>"

text \<open>
  The join of \<^verbatim>\<open>enviarCodigo\<close>: \<^verbatim>\<open>a JOIN p ON a.id = p.id WHERE a.correo_electronico = ?
  AND p.fecha_nacimiento = ?\<close>, selecting \<^verbatim>\<open>a.id, a.registro_completado\<close>.
\<close>

definition selectPreregistrado :: "world \<Rightarrow> string \<Rightarrow> string \<Rightarrow> (nat \<times> int) list" where
  "selectPreregistrado w correo fecha =
     concat (map (\<lambda>a. concat (map (\<lambda>p.
       if id_a a = id_p p \<and> correo_electronico a = correo \<and> fecha_nacimiento p = fecha
       then [(id_a a, registro_completado a)] else []) (perfil_usuarios w)))
       (autenticacion_usuarios w))"

text \<open>\<^verbatim>\<open>new Date(x).getTime()\<close> for a column value: \<^verbatim>\<open>new Date(null)\<close> is the epoch.\<close>

definition getTime :: "int option \<Rightarrow> int" where
  "getTime d = (case d of None \<Rightarrow> 0 | Some t \<Rightarrow> t)"

text \<open>One validation chain: its message is reported when the validator fails.\<close>

definition chain :: "bool \<Rightarrow> msg \<Rightarrow> msg list" where
  "chain ok m = (if ok then [] else [m])"

text \<open>A chain under \<^verbatim>\<open>optional({ checkFalsy: true, nullable: true })\<close>.\<close>

definition optionalChain :: "string option \<Rightarrow> (string \<Rightarrow> bool) \<Rightarrow> msg \<Rightarrow> msg list" where
  "optionalChain v ok m = (case v of None \<Rightarrow> [] | Some s \<Rightarrow> if s = [] then [] else chain (ok s) m)"

text \<open>\<^verbatim>\<open>v || null\<close> for a bound parameter.\<close>

definition orNull :: "string option \<Rightarrow> string option" where
  "orNull v = (case v of None \<Rightarrow> None | Some s \<Rightarrow> if s = [] then None else Some s)"

text \<open>\<^verbatim>\<open>!v\<close> for a nullable text column: \<^verbatim>\<open>NULL\<close> and the empty string are falsy.\<close>

definition falsy :: "string option \<Rightarrow> bool" where
  "falsy v = (case v of None \<Rightarrow> True | Some s \<Rightarrow> s = [])"

text \<open>
  \<^verbatim>\<open>Math.floor(100000 + Math.random() * 900000).toString()\<close>. The draw is taken after the
  floor: \<open>floored\<close> is the integer that \<^verbatim>\<open>Math.floor\<close> returned, so that the floating-point
  sum is not part of the model.
\<close>

definition otpCode :: "nat \<Rightarrow> string" where
  "otpCode floored = toString floored"

definition sender :: "env \<Rightarrow> string" where
  "sender e = [CHR 0x22] @ ''SUTUTEH'' @ [CHR 0x22] @ '' <'' @ EMAIL_USER e @ ''>''"


section \<open>Registration handlers\<close>

text \<open>
  The validation chains of a route give the list of messages that \<^verbatim>\<open>validationResult\<close>
  reports. Each handler takes the collaborators, the values it draws from outside (the floored
  random number, the salt, the clock), the request body and the stored state, and returns the response
  with the state it leaves. The repository has a second copy of the registration routes that hands
  the mail to another transport; its handlers are otherwise the same.
\<close>

definition enviarCodigoChains :: "env \<Rightarrow> body \<Rightarrow> msg list" where
  "enviarCodigoChains e b =
       chain (isEmail e (body_correo_electronico b)) Correo_invalido
     @ chain (isISO8601 e (body_fecha_nacimiento b)) Fecha_invalida"

definition enviarCodigo :: "env \<Rightarrow> nat \<Rightarrow> string \<Rightarrow> int \<Rightarrow> body \<Rightarrow> world \<Rightarrow> response \<times> world" where
  "enviarCodigo e floored salt now b w =
     (let errors = enviarCodigoChains e b
      in if errors \<noteq> [] then (Res 400 (Errors errors), w)
      else
        (case selectPreregistrado w (toLowerCase (body_correo_electronico b)) (body_fecha_nacimiento b) of
           [] \<Rightarrow> (Res 404 (Error Usuario_no_encontrado), w)
         | (userId, completado) # _ \<Rightarrow>
             if completado = 1 then (Res 400 (Error Usuario_ya_registrado), w)
             else
               (let code = otpCode floored;
                    token = jwt_sign e code;
                    hashedToken = bcrypt_hash e token salt;
                    w1 = updateAuth userId
                           (\<lambda>a. a\<lparr>codigo_verificacion := Some hashedToken,
                                   fecha_codigo_verificacion := Some now\<rparr>) w;
                    html = replace ''${codigo}'' code (htmlTemplate e);
                    m = \<lparr>mail_from = sender e, mail_to = body_correo_electronico b,
                         mail_subject = Tu_codigo_de_verificacion_SUTUTEH, mail_html = html\<rparr>
                in if sendMail e m
                   then (Res 200 (Message Codigo_de_verificacion_enviado_exitosamente),
                         w1\<lparr>outbox := outbox w1 @ [m]\<rparr>)
                   else (Res 500 (Error Error_interno_al_enviar_el_codigo), w1))))"

definition validarCodigoChains :: "env \<Rightarrow> body \<Rightarrow> msg list" where
  "validarCodigoChains e b =
       chain (isEmail e (body_correo_electronico b)) Correo_invalido
     @ chain (length (body_codigo b) = 6) Codigo_debe_tener_6_digitos"

text \<open>
  \<^verbatim>\<open>bcrypt.compare\<close> rejects when the stored hash is \<^verbatim>\<open>null\<close>; the handler's
  \<^verbatim>\<open>catch\<close> turns that into the 500 response.
\<close>

definition validarCodigo :: "env \<Rightarrow> int \<Rightarrow> body \<Rightarrow> world \<Rightarrow> response \<times> world" where
  "validarCodigo e now b w =
     (let errors = validarCodigoChains e b
      in if errors \<noteq> [] then (Res 400 (Errors errors), w)
      else
        (case selectByEmail w (toLowerCase (body_correo_electronico b)) of
           [] \<Rightarrow> (Res 404 (Error Usuario_no_encontrado), w)
         | user # _ \<Rightarrow>
             if now - getTime (fecha_codigo_verificacion user) > 10 * 60 * 1000
             then (Res 400 (Error El_codigo_ha_expirado), w)
             else
               (let candidateToken = jwt_sign e (body_codigo b)
                in case codigo_verificacion user of
                     None \<Rightarrow> (Res 500 (Error Error_interno_al_validar_el_codigo), w)
                   | Some hashToken \<Rightarrow>
                       if \<not> bcrypt_compare e candidateToken hashToken
                       then (Res 400 (Error Codigo_incorrecto), w)
                       else (Res 200 (Message Codigo_verificado_correctamente),
                             updateAuth (id_a user) (\<lambda>a. a\<lparr>verificado := 1\<rparr>) w))))"

definition actualizarUsuarioChains :: "env \<Rightarrow> body \<Rightarrow> msg list" where
  "actualizarUsuarioChains e b =
       chain (isEmail e (body_correo_electronico b)) Correo_invalido
     @ chain (length (body_password b) \<ge> 8) La_contrasena_debe_tener_al_menos_8_caracteres
     @ chain (body_firstName b \<noteq> []) Nombre_requerido
     @ chain (body_lastName b \<noteq> []) Apellido_paterno_requerido
     @ chain (body_maternalLastName b \<noteq> []) Apellido_materno_requerido
     @ chain (body_gender b \<in> set [''Masculino'', ''Femenino'', ''Otro'']) Genero_invalido
     @ chain (length (body_curp b) = 18) CURP_debe_tener_18_caracteres
     @ chain (length (body_phone b) = 10) Telefono_debe_tener_10_digitos
     @ chain (isInt e (body_universityOrigin b)) Universidad_invalida
     @ chain (isInt e (body_universityPosition b)) Puesto_invalido
     @ optionalChain (body_educationalProgram b) (isInt e) Programa_invalido
     @ chain (body_workerNumber b \<noteq> []) Numero_de_trabajador_requerido
     @ chain (isInt e (body_educationalLevel b)) Nivel_educativo_invalido
     @ optionalChain (body_antiguedad b) (isISO8601 e) Fecha_de_antiguedad_invalida"

definition actualizarUsuario :: "env \<Rightarrow> string \<Rightarrow> body \<Rightarrow> world \<Rightarrow> response \<times> world" where
  "actualizarUsuario e salt b w =
     (let errors = actualizarUsuarioChains e b
      in if errors \<noteq> [] then (Res 400 (Errors errors), w)
      else
        (case selectByEmail w (toLowerCase (body_correo_electronico b)) of
           [] \<Rightarrow> (Res 404 (Error Usuario_no_encontrado), w)
         | user # _ \<Rightarrow>
             (let userId = id_a user;
                  hashedPassword = bcrypt_hash e (body_password b) salt;
                  w1 = updateAuth userId
                         (\<lambda>a. a\<lparr>contrasena := Some hashedPassword, registro_completado := 1\<rparr>) w;
                  w2 = updatePerfil userId
                         (\<lambda>p. p\<lparr>nombre := Some (body_firstName b),
                                 apellido_paterno := Some (body_lastName b),
                                 apellido_materno := Some (body_maternalLastName b),
                                 genero := Some (body_gender b),
                                 curp := Some (body_curp b),
                                 telefono := Some (body_phone b),
                                 universidad_id := Some (body_universityOrigin b),
                                 puesto_id := Some (body_universityPosition b),
                                 programa_id := orNull (body_educationalProgram b),
                                 nivel_id := Some (body_educationalLevel b),
                                 numero_trabajador := Some (body_workerNumber b),
                                 rol_sindicato_id := Some 1,
                                 antiguedad := orNull (body_antiguedad b)\<rparr>) w1
              in (Res 200 (Message Usuario_actualizado_y_registro_completado), w2))))"


section \<open>Password recovery handlers\<close>

text \<open>
  \<^verbatim>\<open>/^(?=.*[a-z])(?=.*[A-Z])(?=.*\d)(?=.*[@$!%*?&])[A-Za-z\d@$!%*?&]{8,}$/\<close>: all
  characters are in the class, there are at least eight, and each of the four look-aheads
  finds its character. (The class excludes line terminators, so \<^verbatim>\<open>.*\<close> reaches every
  position of a string that matches.)
\<close>

definition isLower :: "char \<Rightarrow> bool" where
  "isLower c \<longleftrightarrow> (let n = (of_char c :: nat) in 97 \<le> n \<and> n \<le> 122)"

definition isUpper :: "char \<Rightarrow> bool" where
  "isUpper c \<longleftrightarrow> (let n = (of_char c :: nat) in 65 \<le> n \<and> n \<le> 90)"

definition isSpecial :: "char \<Rightarrow> bool" where
  "isSpecial c \<longleftrightarrow> c \<in> set ''@$!%*?&''"

definition passwordRegex :: "string \<Rightarrow> bool" where
  "passwordRegex s \<longleftrightarrow>
     list_ex isLower s \<and> list_ex isUpper s \<and> list_ex isDigit s \<and> list_ex isSpecial s \<and>
     list_all (\<lambda>c. isUpper c \<or> isLower c \<or> isDigit c \<or> isSpecial c) s \<and> length s \<ge> 8"

text \<open>
  \<^verbatim>\<open>(now - codeDate) / (1000 * 60)\<close>, as an exact quotient. The double the source computes
  is the rounded quotient; rounding is monotone and 10 and 15 are doubles, so the comparisons
  with 10 and with 15 come out the same.
\<close>

definition diffMinutes :: "int \<Rightarrow> int \<Rightarrow> rat" where
  "diffMinutes now codeDate = of_int (now - codeDate) / (1000 * 60)"

definition enviarCodigoRecuperacionChains :: "env \<Rightarrow> body \<Rightarrow> msg list" where
  "enviarCodigoRecuperacionChains e b =
       chain (isEmail e (body_email b)) Correo_electronico_invalido"

definition enviarCodigoRecuperacion ::
  "env \<Rightarrow> nat \<Rightarrow> string \<Rightarrow> int \<Rightarrow> body \<Rightarrow> world \<Rightarrow> response \<times> world" where
  "enviarCodigoRecuperacion e floored salt now b w =
     (let errors = enviarCodigoRecuperacionChains e b
      in if errors \<noteq> [] then (Res 400 (Errors errors), w)
      else
        (case selectByEmail w (toLowerCase (body_email b)) of
           [] \<Rightarrow> (Res 404 (Error Usuario_no_valido_para_recuperacion_de_contrasena), w)
         | user # _ \<Rightarrow>
             if registro_completado user \<noteq> 1 \<or> estatus user \<noteq> ''Activo''
             then (Res 404 (Error Usuario_no_valido_para_recuperacion_de_contrasena), w)
             else
               (let userId = id_a user;
                    code = otpCode floored;
                    token = jwt_sign e code;
                    hashedToken = bcrypt_hash e token salt;
                    w1 = updateAuth userId
                           (\<lambda>a. a\<lparr>codigo_verificacion := Some hashedToken,
                                   fecha_codigo_verificacion := Some now\<rparr>) w;
                    html = replace ''${codigo}'' code (recoveryHtmlTemplate e);
                    m = \<lparr>mail_from = sender e, mail_to = body_email b,
                         mail_subject = Codigo_de_Recuperacion_de_Contrasena_SUTUTEH,
                         mail_html = html\<rparr>
                in if sendMail e m
                   then (Res 200 (Message Codigo_de_recuperacion_enviado_exitosamente),
                         w1\<lparr>outbox := outbox w1 @ [m]\<rparr>)
                   else (Res 500 (Error Error_interno_al_enviar_el_codigo_de_recuperacion), w1))))"

definition verificarCodigoChains :: "env \<Rightarrow> body \<Rightarrow> msg list" where
  "verificarCodigoChains e b =
       chain (isEmail e (body_email b)) Correo_electronico_invalido
     @ chain (length (body_codigo b) = 6) El_codigo_debe_tener_6_digitos"

definition verificarCodigo :: "env \<Rightarrow> int \<Rightarrow> body \<Rightarrow> world \<Rightarrow> response \<times> world" where
  "verificarCodigo e now b w =
     (let errors = verificarCodigoChains e b
      in if errors \<noteq> [] then (Res 400 (Errors errors), w)
      else
        (case selectByEmail w (toLowerCase (body_email b)) of
           [] \<Rightarrow> (Res 404 (Error Usuario_no_encontrado_R), w)
         | user # _ \<Rightarrow>
             if falsy (codigo_verificacion user) \<or> fecha_codigo_verificacion user = None
             then (Res 400 (Error No_se_ha_solicitado_recuperacion_de_contrasena), w)
             else if diffMinutes now (getTime (fecha_codigo_verificacion user)) > 10
             then (Res 400 (Error El_codigo_ha_expirado_Solicite_uno_nuevo), w)
             else
               (let candidateToken = jwt_sign e (body_codigo b)
                in case codigo_verificacion user of
                     None \<Rightarrow> (Res 500 (Error Error_interno_al_verificar_el_codigo), w)
                   | Some hashToken \<Rightarrow>
                       if \<not> bcrypt_compare e candidateToken hashToken
                       then (Res 400 (Error Codigo_incorrecto_Verifique_e_intente_nuevamente), w)
                       else (Res 200 (Message Codigo_verificado_correctamente_Puede_proceder),
                             w))))"

definition actualizarContrasenaChains :: "env \<Rightarrow> body \<Rightarrow> msg list" where
  "actualizarContrasenaChains e b =
       chain (isEmail e (body_email b)) Correo_electronico_invalido
     @ chain (length (body_password b) \<ge> 8) La_contrasena_debe_tener_al_menos_8_caracteres
     @ chain (body_confirmPassword b \<noteq> []) Confirmacion_de_contrasena_requerida"

definition actualizarContrasena :: "env \<Rightarrow> string \<Rightarrow> int \<Rightarrow> body \<Rightarrow> world \<Rightarrow> response \<times> world" where
  "actualizarContrasena e salt now b w =
     (let errors = actualizarContrasenaChains e b
      in if errors \<noteq> [] then (Res 400 (Errors errors), w)
      else if body_password b \<noteq> body_confirmPassword b
      then (Res 400 (Error Las_contrasenas_no_coinciden), w)
      else if \<not> passwordRegex (body_password b)
      then (Res 400 (Error La_contrasena_debe_incluir_mayusculas_minusculas_numeros_y_especiales), w)
      else if isPasswordPwned e (body_password b)
      then (Res 400 (Error Esta_contrasena_ha_sido_comprometida), w)
      else
        (case selectByEmail w (toLowerCase (body_email b)) of
           [] \<Rightarrow> (Res 404 (Error Usuario_no_encontrado_R), w)
         | user # _ \<Rightarrow>
             if falsy (codigo_verificacion user) \<or> fecha_codigo_verificacion user = None
             then (Res 400 (Error Debe_verificar_el_codigo_de_recuperacion), w)
             else if diffMinutes now (getTime (fecha_codigo_verificacion user)) > 15
             then (Res 400 (Error El_proceso_de_recuperacion_ha_expirado), w)
             else
               (let hashedPassword = bcrypt_hash e (body_password b) salt
                in (Res 200 (Message Contrasena_actualizada_exitosamente),
                    updateAuth (id_a user)
                      (\<lambda>a. a\<lparr>contrasena := Some hashedPassword,
                              codigo_verificacion := None,
                              fecha_codigo_verificacion := None,
                              fecha_actualizacion := Some now\<rparr>) w))))"


section \<open>A test double\<close>

text \<open>
  Stand-ins for the collaborators, used to run the handlers on concrete requests: the signer
  prefixes the code, the hasher puts a two-character salt in front of the data and the
  comparison drops it again, and the breach service answers every range query with the given
  result. The digest of \<^verbatim>\<open>Password1!\<close> is its SHA-1.
\<close>

definition stubEnv :: "http_result \<Rightarrow> env" where
  "stubEnv r =
     \<lparr>jwt_sign = (\<lambda>code. ''jwt:'' @ code),
      bcrypt_hash = (\<lambda>d salt. take 2 (salt @ ''..'') @ d),
      bcrypt_compare = (\<lambda>d h. drop 2 h = d),
      sha1_hex = (\<lambda>p. if p = ''Password1!'' then ''32ca9fc1a0f5b6330e3f4c8c1bbecde9bedb9573''
                        else replicate 40 (CHR ''0'')),
      axios_get = (\<lambda>url. r),
      sendMail = (\<lambda>m. True),
      isEmail = (\<lambda>s. CHR ''@'' \<in> set s),
      isISO8601 = (\<lambda>s. length s = 10),
      isInt = (\<lambda>s. s \<noteq> [] \<and> list_all isDigit s),
      EMAIL_USER = ''sistema@sututeh.com'',
      htmlTemplate = ''<p>${codigo}</p>'',
      recoveryHtmlTemplate = ''<b>${codigo}</b>''\<rparr>"

definition emptyBody :: body where
  "emptyBody =
     \<lparr>body_correo_electronico = [], body_fecha_nacimiento = [], body_codigo = [],
      body_password = [], body_firstName = [], body_lastName = [], body_maternalLastName = [],
      body_gender = [], body_curp = [], body_phone = [], body_universityOrigin = [],
      body_universityPosition = [], body_educationalProgram = None, body_workerNumber = [],
      body_educationalLevel = [], body_antiguedad = None, body_email = [],
      body_confirmPassword = []\<rparr>"

text \<open>One pre-registered member, as the administrator's import leaves it.\<close>

definition seedAuth :: auth_row where
  "seedAuth =
     \<lparr>id_a = 1, correo_electronico = ''a@b.com'', contrasena = None, registro_completado = 0,
      estatus = ''Activo'', verificado = 0, codigo_verificacion = None,
      fecha_codigo_verificacion = None, fecha_actualizacion = None\<rparr>"

definition seedPerfil :: perfil_row where
  "seedPerfil =
     \<lparr>id_p = 1, fecha_nacimiento = ''2000-01-01'', nombre = None, apellido_paterno = None,
      apellido_materno = None, genero = None, curp = None, telefono = None,
      universidad_id = None, puesto_id = None, programa_id = None, nivel_id = None,
      numero_trabajador = None, rol_sindicato_id = None, antiguedad = None\<rparr>"

definition seedWorld :: world where
  "seedWorld = \<lparr>autenticacion_usuarios = [seedAuth], perfil_usuarios = [seedPerfil], outbox = []\<rparr>"


text \<open>A range response of the breach service in which the suffix of that digest has the given count.\<close>

definition rangeBody :: "string \<Rightarrow> string" where
  "rangeBody count =
     ''FC1A0F5B6330E3F4C8C1BBECDE9BEDB9573:'' @ count @ [CHR 0x0D, CHR 0x0A]
     @ ''0018A45C4D1DEF81644B54AB7F969B88D65:1''"

text \<open>A body in which two lines carry that suffix, the first with count 0.\<close>

definition repeatedBody :: string where
  "repeatedBody =
     ''FC1A0F5B6330E3F4C8C1BBECDE9BEDB9573:0'' @ [CHR 0x0A]
     @ ''FC1A0F5B6330E3F4C8C1BBECDE9BEDB9573:5''"

text \<open>
  The member after a code was issued at time 1000000 with the floored draw 550000 (the code
  550000) and the salt \<^verbatim>\<open>s1\<close>.
\<close>

definition pendingAuth :: auth_row where
  "pendingAuth = seedAuth\<lparr>codigo_verificacion := Some ''s1jwt:550000'',
                           fecha_codigo_verificacion := Some 1000000\<rparr>"

definition pendingWorld :: world where
  "pendingWorld = seedWorld\<lparr>autenticacion_usuarios := [pendingAuth]\<rparr>"


text \<open>Request bodies for that member.\<close>

definition sendBody :: body where
  "sendBody = emptyBody\<lparr>body_correo_electronico := ''a@b.com'',
                         body_fecha_nacimiento := ''2000-01-01''\<rparr>"

definition regBody :: "string \<Rightarrow> body" where
  "regBody codigo = emptyBody\<lparr>body_correo_electronico := ''a@b.com'', body_codigo := codigo\<rparr>"

definition recBody :: "string \<Rightarrow> body" where
  "recBody codigo = emptyBody\<lparr>body_email := ''a@b.com'', body_codigo := codigo\<rparr>"

definition resetBody :: body where
  "resetBody = emptyBody\<lparr>body_email := ''a@b.com'', body_password := ''Password1!'',
                          body_confirmPassword := ''Password1!''\<rparr>"

definition profileBody :: body where
  "profileBody =
     emptyBody\<lparr>body_correo_electronico := ''a@b.com'', body_password := ''Password1!'',
       body_firstName := ''Ana'', body_lastName := ''Lopez'', body_maternalLastName := ''Diaz'',
       body_gender := ''Femenino'', body_curp := ''LODA000101MHGPZN09'',
       body_phone := ''7711234567'', body_universityOrigin := ''1'',
       body_universityPosition := ''2'', body_educationalProgram := Some [],
       body_workerNumber := ''T-100'', body_educationalLevel := ''3''\<rparr>"


section \<open>Notions of the specification\<close>

text \<open>
  The two fields of a line \<^verbatim>\<open>SUFFIX:COUNT\<close> of the breach service, as the specification
  speaks of them: the trimmed suffix, and the count when the line has one that reads as a number.
\<close>

definition lineSuffix :: "string \<Rightarrow> string" where
  "lineSuffix line = (case split CHR '':'' line of [] \<Rightarrow> [] | hashSuffix # _ \<Rightarrow> trim hashSuffix)"

definition lineCount :: "string \<Rightarrow> int option" where
  "lineCount line =
     (case split CHR '':'' line of _ # count # _ \<Rightarrow> parseInt (trim count) | _ \<Rightarrow> None)"


section \<open>Auxiliary facts\<close>

text \<open>
  The built-in functions beyond ASCII: \<^verbatim>\<open>JOS\<close> followed by U+00C9 is lower-cased to
  \<^verbatim>\<open>jos\<close> followed by U+00E9, the multiplication sign stays, and a no-break space is trimmed.
\<close>

lemma toLowerCase_Latin1:
  "toLowerCase (''JOS'' @ [CHR 0xC9] @ ''@B.com'') = ''jos'' @ [CHR 0xE9] @ ''@b.com'' \<and>
   toLowerCase [CHR 0xD7] = [CHR 0xD7]"
  by code_simp

lemma trim_no_break_space:
  "trim ([CHR 0xA0] @ ''AB'' @ [CHR 0xA0, CHR 0x0D]) = ''AB'' \<and>
   gt0 (lineCount (''AB'' @ [CHR 0xA0] @ '':5'')) \<and> lineSuffix (''AB'' @ [CHR 0xA0] @ '':5'') = ''AB''"
  by code_simp

lemma split_not_Nil: "split d s \<noteq> []"
  by (induction s) (auto split: list.splits)

lemma scanLines_Cons:
  assumes "split CHR '':'' line = h # others"
  shows "scanLines suffix (line # lines) =
           (if trim h = suffix
            then (case others of [] \<Rightarrow> None | count # _ \<Rightarrow> Some (gt0 (parseInt (trim count))))
            else scanLines suffix lines)"
  using assms by simp

text \<open>The scan returns what the first line that carries the suffix says.\<close>

lemma scanLines_find:
  "(case scanLines suffix lines of None \<Rightarrow> False | Some b \<Rightarrow> b)
     = (case find (\<lambda>l. lineSuffix l = suffix) lines of
          None \<Rightarrow> False
        | Some l \<Rightarrow> gt0 (lineCount l))"
proof (induction lines)
  case Nil
  show ?case by simp
next
  case (Cons line lines)
  obtain h others where sp: "split CHR '':'' line = h # others"
    using split_not_Nil [of "CHR '':''" line] by (cases "split CHR '':'' line") auto
  have suf: "lineSuffix line = trim h"
    by (simp add: lineSuffix_def sp)
  have cnt: "gt0 (lineCount line)
               = (case others of [] \<Rightarrow> False | count # _ \<Rightarrow> gt0 (parseInt (trim count)))"
    by (simp add: lineCount_def sp gt0_def split: list.splits)
  show ?case
    using Cons.IH suf cnt
    by (simp add: scanLines_Cons [OF sp] del: scanLines.simps split: list.splits)
qed

text \<open>When at most one line carries the suffix, the scan finds it wherever it stands.\<close>

lemma scanLines_unique:
  assumes "length (filter (\<lambda>l. lineSuffix l = suffix) lines) \<le> 1"
  shows "(case scanLines suffix lines of None \<Rightarrow> False | Some b \<Rightarrow> b)
           = list_ex (\<lambda>l. lineSuffix l = suffix \<and> gt0 (lineCount l)) lines"
  using assms
proof (induction lines)
  case Nil
  show ?case by simp
next
  case (Cons line lines)
  obtain h others where sp: "split CHR '':'' line = h # others"
    using split_not_Nil [of "CHR '':''" line] by (cases "split CHR '':'' line") auto
  have suf: "lineSuffix line = trim h"
    by (simp add: lineSuffix_def sp)
  have cnt: "gt0 (lineCount line)
               = (case others of [] \<Rightarrow> False | count # _ \<Rightarrow> gt0 (parseInt (trim count)))"
    by (simp add: lineCount_def sp gt0_def split: list.splits)
  show ?case
  proof (cases "trim h = suffix")
    case True
    with Cons.prems suf have "filter (\<lambda>l. lineSuffix l = suffix) lines = []" by simp
    then have none: "\<not> list_ex (\<lambda>l. lineSuffix l = suffix \<and> gt0 (lineCount l)) lines"
      by (auto simp: list_ex_iff filter_empty_conv)
    show ?thesis
      using True none suf cnt
      by (simp add: scanLines_Cons [OF sp] del: scanLines.simps split: list.splits)
  next
    case False
    with Cons.prems suf have "length (filter (\<lambda>l. lineSuffix l = suffix) lines) \<le> 1" by simp
    from Cons.IH [OF this] False suf show ?thesis
      by (simp add: scanLines_Cons [OF sp] del: scanLines.simps)
  qed
qed

lemma diffMinutes_gt_10: "diffMinutes now t > 10 \<longleftrightarrow> now - t > 600000"
proof -
  have "diffMinutes now t > 10 \<longleftrightarrow> (of_int 600000 :: rat) < of_int (now - t)"
    by (simp add: diffMinutes_def)
  also have "\<dots> \<longleftrightarrow> 600000 < now - t"
    by (simp only: of_int_less_iff)
  finally show ?thesis .
qed

lemma diffMinutes_gt_15: "diffMinutes now t > 15 \<longleftrightarrow> now - t > 900000"
proof -
  have "diffMinutes now t > 15 \<longleftrightarrow> (of_int 900000 :: rat) < of_int (now - t)"
    by (simp add: diffMinutes_def)
  also have "\<dots> \<longleftrightarrow> 900000 < now - t"
    by (simp only: of_int_less_iff)
  finally show ?thesis .
qed

lemma join_empty:
  fixes as :: "'a list" and ps :: "'b list" and F :: "'a \<Rightarrow> 'c"
  shows "concat (map (\<lambda>a. concat (map (\<lambda>p. if C a p then [F a] else []) ps)) as) = []
     \<longleftrightarrow> (\<forall>a\<in>set as. \<forall>p\<in>set ps. \<not> C a p)"
proof -
  have inner: "concat (map (\<lambda>p. if C a p then [F a] else []) ps) = [] \<longleftrightarrow> (\<forall>p\<in>set ps. \<not> C a p)"
    for a by (induction ps) auto
  have "concat (map f as) = [] \<longleftrightarrow> (\<forall>a\<in>set as. f a = [])" for f :: "'a \<Rightarrow> 'c list"
    by (induction as) auto
  then show ?thesis by (simp only: inner)
qed

text \<open>The join returns no row exactly when no identity has both the address and the birth date.\<close>

lemma selectPreregistrado_empty:
  "selectPreregistrado w correo fecha = [] \<longleftrightarrow>
     \<not> list_ex (\<lambda>a. correo_electronico a = correo \<and>
          list_ex (\<lambda>p. id_p p = id_a a \<and> fecha_nacimiento p = fecha) (perfil_usuarios w))
        (autenticacion_usuarios w)"
proof -
  have "selectPreregistrado w correo fecha = [] \<longleftrightarrow>
          (\<forall>a\<in>set (autenticacion_usuarios w). \<forall>p\<in>set (perfil_usuarios w).
             \<not> (id_a a = id_p p \<and> correo_electronico a = correo \<and> fecha_nacimiento p = fecha))"
    unfolding selectPreregistrado_def by (rule join_empty)
  also have "\<dots> \<longleftrightarrow> \<not> list_ex (\<lambda>a. correo_electronico a = correo \<and>
          list_ex (\<lambda>p. id_p p = id_a a \<and> fecha_nacimiento p = fecha) (perfil_usuarios w))
        (autenticacion_usuarios w)"
    unfolding list_ex_iff by metis
  finally show ?thesis .
qed

lemma otpCode_550000: "otpCode 550000 = ''550000''"
  by (simp add: otpCode_def toString.simps)

lemma selectByEmail_updateAuth:
  assumes "\<And>a. correo_electronico (f a) = correo_electronico a"
  shows "selectByEmail (updateAuth i f w) c
           = map (\<lambda>a. if id_a a = i then f a else a) (selectByEmail w c)"
proof -
  have "filter (\<lambda>a. correo_electronico a = c) (map (\<lambda>a. if id_a a = i then f a else a) xs)
          = map (\<lambda>a. if id_a a = i then f a else a) (filter (\<lambda>a. correo_electronico a = c) xs)"
    for xs by (induction xs) (simp_all add: assms)
  then show ?thesis by (simp add: selectByEmail_def updateAuth_def)
qed

lemma selectByEmail_updatePerfil [simp]:
  "selectByEmail (updatePerfil i f w) c = selectByEmail w c"
  by (simp add: selectByEmail_def updatePerfil_def)

lemma selectByEmail_outbox [simp]:
  "selectByEmail (w\<lparr>outbox := ob\<rparr>) c = selectByEmail w c"
  by (simp add: selectByEmail_def)

lemma actualizarContrasena_200:
  assumes "fst (actualizarContrasena e salt now b w) = Res 200 j"
  shows "actualizarContrasenaChains e b = [] \<and>
         body_password b = body_confirmPassword b \<and>
         passwordRegex (body_password b) \<and>
         \<not> isPasswordPwned e (body_password b) \<and>
         (\<exists>user others h t.
            selectByEmail w (toLowerCase (body_email b)) = user # others \<and>
            codigo_verificacion user = Some h \<and> h \<noteq> [] \<and>
            fecha_codigo_verificacion user = Some t \<and> now - t \<le> 15 * 60 * 1000 \<and>
            snd (actualizarContrasena e salt now b w) =
              updateAuth (id_a user)
                (\<lambda>a. a\<lparr>contrasena := Some (bcrypt_hash e (body_password b) salt),
                        codigo_verificacion := None,
                        fecha_codigo_verificacion := None,
                        fecha_actualizacion := Some now\<rparr>) w)"
proof (cases "selectByEmail w (toLowerCase (body_email b))")
  case Nil
  with assms show ?thesis
    by (simp add: actualizarContrasena_def Let_def split: if_splits)
next
  case (Cons user others)
  with assms show ?thesis
    by (cases "codigo_verificacion user"; cases "fecha_codigo_verificacion user")
       (simp_all add: actualizarContrasena_def Let_def falsy_def getTime_def diffMinutes_gt_15
          split: if_splits)
qed

lemma actualizarContrasena_ok:
  assumes "actualizarContrasenaChains e b = []"
    and "body_password b = body_confirmPassword b"
    and "passwordRegex (body_password b)"
    and "\<not> isPasswordPwned e (body_password b)"
    and "selectByEmail w (toLowerCase (body_email b)) = user # others"
    and "codigo_verificacion user = Some h" and "h \<noteq> []"
    and "fecha_codigo_verificacion user = Some t" and "now - t \<le> 15 * 60 * 1000"
  shows "fst (actualizarContrasena e salt now b w) = Res 200 (Message Contrasena_actualizada_exitosamente)"
  using assms
  by (simp add: actualizarContrasena_def Let_def falsy_def getTime_def diffMinutes_gt_15)

lemma enviarCodigo_200:
  assumes "fst (enviarCodigo e floored salt now b w) = Res 200 j"
  shows "\<exists>userId completado others.
           selectPreregistrado w (toLowerCase (body_correo_electronico b)) (body_fecha_nacimiento b)
             = (userId, completado) # others \<and>
           autenticacion_usuarios (snd (enviarCodigo e floored salt now b w))
             = map (\<lambda>a. if id_a a = userId
                         then a\<lparr>codigo_verificacion :=
                                  Some (bcrypt_hash e (jwt_sign e (otpCode floored)) salt),
                                fecha_codigo_verificacion := Some now\<rparr>
                         else a) (autenticacion_usuarios w)"
  using assms
  by (auto simp: enviarCodigo_def Let_def updateAuth_def split: if_splits list.splits)

lemma selectPreregistrado_member:
  assumes "(userId, completado) \<in> set (selectPreregistrado w correo fecha)"
  shows "\<exists>a\<in>set (autenticacion_usuarios w). id_a a = userId \<and> correo_electronico a = correo"
  using assms unfolding selectPreregistrado_def by (auto split: if_splits)

lemma unique_by_email:
  assumes "distinct (map correo_electronico xs)" and "a \<in> set xs"
  shows "filter (\<lambda>x. correo_electronico x = correo_electronico a) xs = [a]"
  using assms
proof (induction xs)
  case Nil
  then show ?case by simp
next
  case (Cons x xs)
  show ?case
  proof (cases "x = a")
    case True
    with Cons.prems have "correo_electronico a \<notin> correo_electronico ` set xs" by simp
    then have "\<forall>x\<in>set xs. correo_electronico x \<noteq> correo_electronico a"
      by (metis imageI)
    then have "filter (\<lambda>x. correo_electronico x = correo_electronico a) xs = []"
      by (simp add: filter_empty_conv)
    with True show ?thesis by simp
  next
    case False
    with Cons.prems have in_xs: "a \<in> set xs" by simp
    with Cons.prems have "correo_electronico x \<noteq> correo_electronico a" by auto
    with Cons.IH in_xs Cons.prems show ?thesis by simp
  qed
qed

lemma validarCodigo_200:
  assumes "fst (validarCodigo e now b w) = Res 200 j"
  shows "\<exists>user others.
           selectByEmail w (toLowerCase (body_correo_electronico b)) = user # others \<and>
           snd (validarCodigo e now b w) = updateAuth (id_a user) (\<lambda>a. a\<lparr>verificado := 1\<rparr>) w"
  using assms
  by (auto simp: validarCodigo_def Let_def split: if_splits list.splits option.splits)

lemma validarCodigo_after_verificado:
  "fst (validarCodigo e now b (updateAuth i (\<lambda>a. a\<lparr>verificado := v\<rparr>) w))
     = fst (validarCodigo e now b w)"
proof -
  have "selectByEmail (updateAuth i (\<lambda>a. a\<lparr>verificado := v\<rparr>) w) c
          = map (\<lambda>a. if id_a a = i then a\<lparr>verificado := v\<rparr> else a) (selectByEmail w c)" for c
    by (rule selectByEmail_updateAuth) simp
  then show ?thesis
    by (simp add: validarCodigo_def Let_def split: list.splits option.splits)
qed

lemma challenge_after_verificado:
  "map codigo_verificacion (autenticacion_usuarios (updateAuth i (\<lambda>a. a\<lparr>verificado := v\<rparr>) w))
     = map codigo_verificacion (autenticacion_usuarios w) \<and>
   map fecha_codigo_verificacion (autenticacion_usuarios (updateAuth i (\<lambda>a. a\<lparr>verificado := v\<rparr>) w))
     = map fecha_codigo_verificacion (autenticacion_usuarios w)"
proof -
  have "map codigo_verificacion (map (\<lambda>a. if id_a a = i then a\<lparr>verificado := v\<rparr> else a) xs)
          = map codigo_verificacion xs \<and>
        map fecha_codigo_verificacion (map (\<lambda>a. if id_a a = i then a\<lparr>verificado := v\<rparr> else a) xs)
          = map fecha_codigo_verificacion xs" for xs :: "auth_row list"
    by (induction xs) simp_all
  then show ?thesis by (simp add: updateAuth_def)
qed

text \<open>The test double, evaluated.\<close>

lemmas fixture_defs =
  stubEnv_def emptyBody_def seedWorld_def seedAuth_def seedPerfil_def pendingWorld_def
  pendingAuth_def chain_def

lemma issued:
  "enviarCodigo (stubEnv Rejected) 550000 ''s1'' 1000000 sendBody seedWorld
     = (Res 200 (Message Codigo_de_verificacion_enviado_exitosamente),
        pendingWorld\<lparr>outbox := [\<lparr>mail_from = sender (stubEnv Rejected), mail_to = ''a@b.com'',
           mail_subject = Tu_codigo_de_verificacion_SUTUTEH, mail_html = ''<p>550000</p>''\<rparr>]\<rparr>)"
  by (simp add: enviarCodigo_def enviarCodigoChains_def sendBody_def fixture_defs
      selectPreregistrado_def toLowerCase_def otpCode_550000 updateAuth_def sender_def)

lemma otpCode_325000: "otpCode 325000 = ''325000''"
  by (simp add: otpCode_def toString.simps)

lemma profileBody_valid: "actualizarUsuarioChains (stubEnv r) profileBody = []"
  by (simp add: actualizarUsuarioChains_def profileBody_def fixture_defs optionalChain_def
      isDigit_def)

lemma resetBody_valid: "actualizarContrasenaChains (stubEnv r) resetBody = []"
  by (simp add: actualizarContrasenaChains_def resetBody_def fixture_defs)

lemma regBody_valid: "validarCodigoChains (stubEnv r) (regBody ''550000'') = []"
  by (simp add: validarCodigoChains_def regBody_def fixture_defs)

lemma recBody_valid: "verificarCodigoChains (stubEnv r) (recBody ''550000'') = []"
  by (simp add: verificarCodigoChains_def recBody_def fixture_defs)

lemma Password1_regex: "passwordRegex ''Password1!''"
  by code_simp

lemma Password1_not_pwned: "\<not> isPasswordPwned (stubEnv (Response (rangeBody ''0''))) ''Password1!''"
  by code_simp

lemma select_seed: "selectByEmail seedWorld (toLowerCase ''a@b.com'') = [seedAuth]"
  by (simp add: selectByEmail_def fixture_defs toLowerCase_def)

lemma select_pending: "selectByEmail pendingWorld (toLowerCase ''a@b.com'') = [pendingAuth]"
  by (simp add: selectByEmail_def fixture_defs toLowerCase_def)


section \<open>The breach checker\<close>

text \<open>
  C6. The breach checker is fail-open: for every password, when the request to the range
  service is rejected (network or service failure), \<open>isPasswordPwned\<close> returns false. No
  error is propagated and the caller is not blocked.
\<close>

theorem isPasswordPwned_fail_open:
  assumes "axios_get e (''https://api.pwnedpasswords.com/range/''
             @ take 5 (toUpperCase (sha1_hex e password))) = Rejected"
  shows "isPasswordPwned e password = False"
  using assms by (simp add: isPasswordPwned_def Let_def)

theorem isPasswordPwned_fail_open_witness:
  "isPasswordPwned (stubEnv Rejected) ''Password1!'' = False"
  using isPasswordPwned_fail_open [of "stubEnv Rejected" "''Password1!''"]
  by (simp add: stubEnv_def)

text \<open>
  With at most one line that carries the suffix, as in the responses of the service, the
  result is true exactly when some line carries the suffix with a count greater than 0.
\<close>

lemma isPasswordPwned_unique_line:
  assumes "axios_get e (''https://api.pwnedpasswords.com/range/''
             @ take 5 (toUpperCase (sha1_hex e password))) = Response data"
    and "suffix = drop 5 (toUpperCase (sha1_hex e password))"
    and "length (filter (\<lambda>l. lineSuffix l = suffix) (split (CHR 0x0A) data)) \<le> 1"
  shows "isPasswordPwned e password
           = list_ex (\<lambda>l. lineSuffix l = suffix \<and> gt0 (lineCount l)) (split (CHR 0x0A) data)"
  using assms(1,2) scanLines_unique [OF assms(3)]
  by (simp add: isPasswordPwned_def Let_def)

text \<open>
  C7 as the code has it. For every password and every response body of the range service,
  \<open>isPasswordPwned\<close> returns what the first line that carries the suffix of the password's
  digest says: true when the count of that line is greater than 0, false when its count is 0
  (or is not a number, or is missing), and false when no line carries the suffix.
\<close>

theorem isPasswordPwned_first_matching_line:
  assumes "axios_get e (''https://api.pwnedpasswords.com/range/''
             @ take 5 (toUpperCase (sha1_hex e password))) = Response data"
    and "suffix = drop 5 (toUpperCase (sha1_hex e password))"
  shows "isPasswordPwned e password
           = (case find (\<lambda>l. lineSuffix l = suffix) (split (CHR 0x0A) data) of
                None \<Rightarrow> False
              | Some l \<Rightarrow> gt0 (lineCount l))"
  using assms scanLines_find [of suffix "split (CHR 0x0A) data"]
  by (simp add: isPasswordPwned_def Let_def)

theorem isPasswordPwned_first_matching_line_witness:
  "isPasswordPwned (stubEnv (Response (rangeBody ''5''))) ''Password1!'' \<and>
   \<not> isPasswordPwned (stubEnv (Response (rangeBody ''0''))) ''Password1!'' \<and>
   \<not> isPasswordPwned (stubEnv (Response ''0018A45C4D1DEF81644B54AB7F969B88D65:1'')) ''Password1!''"
proof -
  have s: "drop 5 (toUpperCase (sha1_hex (stubEnv r) ''Password1!''))
             = ''FC1A0F5B6330E3F4C8C1BBECDE9BEDB9573''" for r
    by code_simp
  have a: "axios_get (stubEnv (Response d)) u = Response d" for d u
    by (simp add: stubEnv_def)
  have r5: "(case find (\<lambda>l. lineSuffix l = ''FC1A0F5B6330E3F4C8C1BBECDE9BEDB9573'')
                    (split (CHR 0x0A) (rangeBody ''5'')) of
               None \<Rightarrow> False | Some l \<Rightarrow> gt0 (lineCount l))"
    by code_simp
  have r0: "\<not> (case find (\<lambda>l. lineSuffix l = ''FC1A0F5B6330E3F4C8C1BBECDE9BEDB9573'')
                    (split (CHR 0x0A) (rangeBody ''0'')) of
               None \<Rightarrow> False | Some l \<Rightarrow> gt0 (lineCount l))"
    by code_simp
  have rn: "\<not> (case find (\<lambda>l. lineSuffix l = ''FC1A0F5B6330E3F4C8C1BBECDE9BEDB9573'')
                    (split (CHR 0x0A) ''0018A45C4D1DEF81644B54AB7F969B88D65:1'') of
               None \<Rightarrow> False | Some l \<Rightarrow> gt0 (lineCount l))"
    by code_simp
  have "isPasswordPwned (stubEnv (Response (rangeBody ''5''))) ''Password1!''"
    using isPasswordPwned_first_matching_line [OF a s [symmetric], of "rangeBody ''5''"] r5
    by blast
  moreover have "\<not> isPasswordPwned (stubEnv (Response (rangeBody ''0''))) ''Password1!''"
    using isPasswordPwned_first_matching_line [OF a s [symmetric], of "rangeBody ''0''"] r0
    by blast
  moreover have "\<not> isPasswordPwned
      (stubEnv (Response ''0018A45C4D1DEF81644B54AB7F969B88D65:1'')) ''Password1!''"
    using isPasswordPwned_first_matching_line
            [OF a s [symmetric], of "''0018A45C4D1DEF81644B54AB7F969B88D65:1''"] rn
    by blast
  ultimately show ?thesis by simp
qed

text \<open>
  C7 as stated fails on a body in which the suffix stands in two lines: the second line
  carries the suffix with count 5, and the result is false, since the first line, with count
  0, has decided.
\<close>

theorem isPasswordPwned_ignores_later_line:
  "drop 5 (toUpperCase (sha1_hex (stubEnv (Response repeatedBody)) ''Password1!''))
     = ''FC1A0F5B6330E3F4C8C1BBECDE9BEDB9573'' \<and>
   split (CHR 0x0A) repeatedBody
     = [''FC1A0F5B6330E3F4C8C1BBECDE9BEDB9573:0'', ''FC1A0F5B6330E3F4C8C1BBECDE9BEDB9573:5''] \<and>
   lineSuffix ''FC1A0F5B6330E3F4C8C1BBECDE9BEDB9573:5'' = ''FC1A0F5B6330E3F4C8C1BBECDE9BEDB9573'' \<and>
   lineCount ''FC1A0F5B6330E3F4C8C1BBECDE9BEDB9573:5'' = Some 5 \<and>
   isPasswordPwned (stubEnv (Response repeatedBody)) ''Password1!'' = False"
  by code_simp


section \<open>Registration\<close>

text \<open>
  C8. For every request to \<^verbatim>\<open>POST /enviarCodigo\<close> that passes validation and whose pair of
  e-mail address and birth date matches no stored identity, the response is 404 and nothing is
  written: the tables are as before (no challenge stored, no field changed) and no mail is sent.
\<close>

theorem enviarCodigo_not_found_no_write:
  assumes "enviarCodigoChains e b = []"
    and "\<not> list_ex (\<lambda>a. correo_electronico a = toLowerCase (body_correo_electronico b) \<and>
            list_ex (\<lambda>p. id_p p = id_a a \<and> fecha_nacimiento p = body_fecha_nacimiento b)
              (perfil_usuarios w))
          (autenticacion_usuarios w)"
  shows "enviarCodigo e floored salt now b w = (Res 404 (Error Usuario_no_encontrado), w)"
  using assms(1) assms(2) [folded selectPreregistrado_empty]
  by (simp add: enviarCodigo_def)

theorem enviarCodigo_not_found_no_write_witness:
  "enviarCodigo (stubEnv Rejected) 550000 ''s1'' 1000000
     (emptyBody\<lparr>body_correo_electronico := ''a@b.com'', body_fecha_nacimiento := ''1999-12-31''\<rparr>)
     seedWorld
   = (Res 404 (Error Usuario_no_encontrado), seedWorld)"
  by (rule enviarCodigo_not_found_no_write)
     (simp_all add: enviarCodigoChains_def fixture_defs toLowerCase_def)

text \<open>
  C2. The completion step \<^verbatim>\<open>POST /actualizarUsuario\<close> checks neither the verified flag nor
  the challenge: for every request that passes validation and whose e-mail address belongs to a
  stored identity, the response is 200, the rows of the identity in
  \<^verbatim>\<open>autenticacion_usuarios\<close> have the hash of the password and \<^verbatim>\<open>registro_completado\<close>
  = 1, and its rows in \<^verbatim>\<open>perfil_usuarios\<close> have the profile of the request. Nothing is
  required of \<^verbatim>\<open>verificado\<close>, of the challenge columns or of the earlier value of
  \<^verbatim>\<open>registro_completado\<close>; the first two are left as they were, as are all other rows.
\<close>

theorem actualizarUsuario_without_verified_check:
  assumes "actualizarUsuarioChains e b = []"
    and "selectByEmail w (toLowerCase (body_correo_electronico b)) = user # others"
    and "w' = snd (actualizarUsuario e salt b w)"
  shows "fst (actualizarUsuario e salt b w)
           = Res 200 (Message Usuario_actualizado_y_registro_completado) \<and>
         autenticacion_usuarios w' =
           map (\<lambda>a. if id_a a = id_a user
                     then a\<lparr>contrasena := Some (bcrypt_hash e (body_password b) salt),
                            registro_completado := 1\<rparr>
                     else a) (autenticacion_usuarios w) \<and>
         perfil_usuarios w' =
           map (\<lambda>p. if id_p p = id_a user
                     then p\<lparr>nombre := Some (body_firstName b),
                            apellido_paterno := Some (body_lastName b),
                            apellido_materno := Some (body_maternalLastName b),
                            genero := Some (body_gender b),
                            curp := Some (body_curp b),
                            telefono := Some (body_phone b),
                            universidad_id := Some (body_universityOrigin b),
                            puesto_id := Some (body_universityPosition b),
                            programa_id := orNull (body_educationalProgram b),
                            nivel_id := Some (body_educationalLevel b),
                            numero_trabajador := Some (body_workerNumber b),
                            rol_sindicato_id := Some 1,
                            antiguedad := orNull (body_antiguedad b)\<rparr>
                     else p) (perfil_usuarios w) \<and>
         outbox w' = outbox w \<and>
         (\<exists>others'. selectByEmail w' (toLowerCase (body_correo_electronico b))
            = user\<lparr>contrasena := Some (bcrypt_hash e (body_password b) salt),
                   registro_completado := 1\<rparr> # others')"
proof -
  have "filter (\<lambda>a. correo_electronico a = c)
          (map (\<lambda>a. if id_a a = i then a\<lparr>contrasena := h, registro_completado := 1\<rparr> else a) xs)
        = map (\<lambda>a. if id_a a = i then a\<lparr>contrasena := h, registro_completado := 1\<rparr> else a)
            (filter (\<lambda>a. correo_electronico a = c) xs)"
    for c i h and xs :: "auth_row list"
    by (induction xs) simp_all
  then show ?thesis
    using assms
    by (simp add: actualizarUsuario_def Let_def updateAuth_def updatePerfil_def selectByEmail_def)
qed

theorem actualizarUsuario_without_verified_check_witness:
  "verificado seedAuth = 0 \<and> codigo_verificacion seedAuth = None \<and>
   fst (actualizarUsuario (stubEnv Rejected) ''s9'' profileBody seedWorld)
     = Res 200 (Message Usuario_actualizado_y_registro_completado) \<and>
   map registro_completado
     (autenticacion_usuarios (snd (actualizarUsuario (stubEnv Rejected) ''s9'' profileBody seedWorld)))
     = [1] \<and>
   map contrasena
     (autenticacion_usuarios (snd (actualizarUsuario (stubEnv Rejected) ''s9'' profileBody seedWorld)))
     = [Some ''s9Password1!''] \<and>
   map verificado
     (autenticacion_usuarios (snd (actualizarUsuario (stubEnv Rejected) ''s9'' profileBody seedWorld)))
     = [0] \<and>
   map nombre
     (perfil_usuarios (snd (actualizarUsuario (stubEnv Rejected) ''s9'' profileBody seedWorld)))
     = [Some ''Ana''] \<and>
   map curp
     (perfil_usuarios (snd (actualizarUsuario (stubEnv Rejected) ''s9'' profileBody seedWorld)))
     = [Some ''LODA000101MHGPZN09''] \<and>
   map programa_id
     (perfil_usuarios (snd (actualizarUsuario (stubEnv Rejected) ''s9'' profileBody seedWorld)))
     = [None] \<and>
   map rol_sindicato_id
     (perfil_usuarios (snd (actualizarUsuario (stubEnv Rejected) ''s9'' profileBody seedWorld)))
     = [Some 1]"
proof -
  have s: "selectByEmail seedWorld (toLowerCase (body_correo_electronico profileBody))
             = seedAuth # []"
    using select_seed by (simp add: profileBody_def emptyBody_def)
  have h: "bcrypt_hash (stubEnv Rejected) (body_password profileBody) ''s9'' = ''s9Password1!''"
    by (simp add: stubEnv_def profileBody_def emptyBody_def)
  have f: "body_firstName profileBody = ''Ana''" "body_curp profileBody = ''LODA000101MHGPZN09''"
    "orNull (body_educationalProgram profileBody) = None"
    by (simp_all add: profileBody_def emptyBody_def orNull_def)
  from actualizarUsuario_without_verified_check [OF profileBody_valid s refl, where salt = "''s9''"]
  show ?thesis
    by (simp add: h f seedWorld_def seedAuth_def seedPerfil_def)
qed

text \<open>
  C10. For every identity that exists but has no stored time stamp
  (\<^verbatim>\<open>fecha_codigo_verificacion\<close> is \<^verbatim>\<open>NULL\<close>), a validated request to
  \<^verbatim>\<open>POST /validarCodigo\<close> gets the 400 response "El codigo ha expirado", not a not-found
  response: the missing time stamp is read as the epoch, and the clock is more than ten minutes
  past the epoch.
\<close>

theorem validarCodigo_no_challenge_expired:
  assumes "validarCodigoChains e b = []"
    and "selectByEmail w (toLowerCase (body_correo_electronico b)) = user # others"
    and "fecha_codigo_verificacion user = None"
    and "600000 < now"
  shows "validarCodigo e now b w = (Res 400 (Error El_codigo_ha_expirado), w)"
  using assms by (simp add: validarCodigo_def getTime_def)

theorem validarCodigo_no_challenge_expired_witness:
  "validarCodigo (stubEnv Rejected) 1700000000000
     (emptyBody\<lparr>body_correo_electronico := ''a@b.com'', body_codigo := ''123456''\<rparr>) seedWorld
   = (Res 400 (Error El_codigo_ha_expirado), seedWorld)"
proof -
  have v: "validarCodigoChains (stubEnv Rejected)
             (emptyBody\<lparr>body_correo_electronico := ''a@b.com'', body_codigo := ''123456''\<rparr>) = []"
    by (simp add: validarCodigoChains_def fixture_defs)
  have s: "selectByEmail seedWorld (toLowerCase (body_correo_electronico
             (emptyBody\<lparr>body_correo_electronico := ''a@b.com'', body_codigo := ''123456''\<rparr>)))
           = seedAuth # []"
    by (simp add: selectByEmail_def fixture_defs toLowerCase_def)
  have f: "fecha_codigo_verificacion seedAuth = None"
    by (simp add: seedAuth_def)
  show ?thesis
    using validarCodigo_no_challenge_expired [OF v s f] by simp
qed

text \<open>
  C4. Issuing a new challenge overwrites the earlier one of the same identity. After two
  successful \<^verbatim>\<open>POST /enviarCodigo\<close> requests, the row of the identity holds the hash and
  the issue time of the second request, and only that hash is compared: submitting the first
  code to \<^verbatim>\<open>POST /validarCodigo\<close> gets the 400 response "Codigo incorrecto", also within
  the ten minutes of the first code, when the hasher's comparison rejects the first code's
  token against the second code's hash (as it does for a different code). The e-mail column
  is unique.
\<close>

theorem reissue_invalidates_previous_code:
  assumes unique: "distinct (map correo_electronico (autenticacion_usuarios w))"
    and first: "enviarCodigo e floored1 salt1 t1 b w = (Res 200 j1, w1)"
    and second: "enviarCodigo e floored2 salt2 t2 b w1 = (Res 200 j2, w2)"
    and latest: "hashedToken2 = bcrypt_hash e (jwt_sign e (otpCode floored2)) salt2"
    and rejects: "\<not> bcrypt_compare e (jwt_sign e (otpCode floored1)) hashedToken2"
    and valid: "validarCodigoChains e b' = []"
    and same: "body_correo_electronico b' = body_correo_electronico b"
    and old: "body_codigo b' = otpCode floored1"
    and live: "t1 \<le> t2" "now - t1 \<le> 10 * 60 * 1000"
  shows "(\<exists>user. selectByEmail w2 (toLowerCase (body_correo_electronico b)) = [user] \<and>
            codigo_verificacion user = Some hashedToken2 \<and>
            fecha_codigo_verificacion user = Some t2) \<and>
         validarCodigo e now b' w2 = (Res 400 (Error Codigo_incorrecto), w2)"
proof -
  let ?c = "toLowerCase (body_correo_electronico b)"
  let ?g = "\<lambda>i a. if id_a a = i
                   then a\<lparr>codigo_verificacion := Some hashedToken2,
                          fecha_codigo_verificacion := Some t2\<rparr>
                   else a"
  from first have "fst (enviarCodigo e floored1 salt1 t1 b w) = Res 200 j1"
    and w1: "snd (enviarCodigo e floored1 salt1 t1 b w) = w1" by simp_all
  from enviarCodigo_200 [OF this(1)] w1
  have "map correo_electronico (autenticacion_usuarios w1)
          = map correo_electronico (autenticacion_usuarios w)"
    by (auto simp: o_def)
  with unique have unique1: "distinct (map correo_electronico (autenticacion_usuarios w1))"
    by simp
  from second have "fst (enviarCodigo e floored2 salt2 t2 b w1) = Res 200 j2"
    and w2: "snd (enviarCodigo e floored2 salt2 t2 b w1) = w2" by simp_all
  from enviarCodigo_200 [OF this(1)] w2 latest
  obtain userId completado others where
    sel: "selectPreregistrado w1 ?c (body_fecha_nacimiento b) = (userId, completado) # others"
    and auth2: "autenticacion_usuarios w2 = map (?g userId) (autenticacion_usuarios w1)"
    by auto
  from sel have "(userId, completado) \<in> set (selectPreregistrado w1 ?c (body_fecha_nacimiento b))"
    by simp
  from selectPreregistrado_member [OF this]
  obtain a where a: "a \<in> set (autenticacion_usuarios w1)" "id_a a = userId"
    "correo_electronico a = ?c" by auto
  from unique_by_email [OF unique1 a(1)] a(3)
  have only: "filter (\<lambda>x. correo_electronico x = ?c) (autenticacion_usuarios w1) = [a]"
    by simp
  have "filter (\<lambda>x. correo_electronico x = ?c) (map (?g userId) xs)
          = map (?g userId) (filter (\<lambda>x. correo_electronico x = ?c) xs)"
    for xs :: "auth_row list"
    by (induction xs) simp_all
  with only auth2 a(2)
  have sel2: "selectByEmail w2 ?c
                = [a\<lparr>codigo_verificacion := Some hashedToken2,
                     fecha_codigo_verificacion := Some t2\<rparr>]"
    by (simp add: selectByEmail_def)
  from live have "\<not> now - t2 > 10 * 60 * 1000" by simp
  with valid same old sel2 rejects
  have "validarCodigo e now b' w2 = (Res 400 (Error Codigo_incorrecto), w2)"
    by (simp add: validarCodigo_def getTime_def)
  with sel2 show ?thesis by simp
qed

theorem reissue_invalidates_previous_code_witness:
  "validarCodigo (stubEnv Rejected) 1100000 (regBody ''550000'')
     (snd (enviarCodigo (stubEnv Rejected) 325000 ''s2'' 1060000 sendBody
        (snd (enviarCodigo (stubEnv Rejected) 550000 ''s1'' 1000000 sendBody seedWorld))))
   = (Res 400 (Error Codigo_incorrecto),
      snd (enviarCodigo (stubEnv Rejected) 325000 ''s2'' 1060000 sendBody
        (snd (enviarCodigo (stubEnv Rejected) 550000 ''s1'' 1000000 sendBody seedWorld))))"
proof -
  let ?e = "stubEnv Rejected"
  let ?w1 = "snd (enviarCodigo ?e 550000 ''s1'' 1000000 sendBody seedWorld)"
  let ?w2 = "snd (enviarCodigo ?e 325000 ''s2'' 1060000 sendBody ?w1)"
  have unique: "distinct (map correo_electronico (autenticacion_usuarios seedWorld))"
    by (simp add: seedWorld_def)
  have first: "enviarCodigo ?e 550000 ''s1'' 1000000 sendBody seedWorld
                 = (Res 200 (Message Codigo_de_verificacion_enviado_exitosamente), ?w1)"
    by (simp add: issued)
  have "fst (enviarCodigo ?e 325000 ''s2'' 1060000 sendBody ?w1)
          = Res 200 (Message Codigo_de_verificacion_enviado_exitosamente)"
    by (simp add: issued)
       (simp add: enviarCodigo_def enviarCodigoChains_def sendBody_def fixture_defs
          selectPreregistrado_def toLowerCase_def otpCode_325000 Let_def)
  then have second: "enviarCodigo ?e 325000 ''s2'' 1060000 sendBody ?w1
                 = (Res 200 (Message Codigo_de_verificacion_enviado_exitosamente), ?w2)"
    by (simp add: prod_eq_iff)
  have rejects: "\<not> bcrypt_compare ?e (jwt_sign ?e (otpCode 550000))
                     (bcrypt_hash ?e (jwt_sign ?e (otpCode 325000)) ''s2'')"
    by (simp add: stubEnv_def otpCode_550000 otpCode_325000)
  have same: "body_correo_electronico (regBody ''550000'') = body_correo_electronico sendBody"
    by (simp add: regBody_def sendBody_def emptyBody_def)
  have old: "body_codigo (regBody ''550000'') = otpCode 550000"
    by (simp add: regBody_def emptyBody_def otpCode_550000)
  have live: "(1000000::int) \<le> 1060000" "(1100000::int) - 1000000 \<le> 10 * 60 * 1000"
    by simp_all
  from reissue_invalidates_previous_code
         [OF unique first second refl rejects regBody_valid same old live]
  show ?thesis by simp
qed


section \<open>Expiry\<close>

text \<open>
  C3. A verification later than the issue time plus the TTL of ten minutes gets the expired
  response whatever the submitted code is, since the expiry check comes before the comparison
  of the hashes; and the bound is strict: the response is the expired one exactly when the
  elapsed time is greater than 600000 ms, so at exactly ten minutes the code is not expired.
  This holds for \<^verbatim>\<open>POST /validarCodigo\<close> on an identity with a time stamp and for
  \<^verbatim>\<open>POST /verificarCodigo\<close> on an identity with a stored challenge.
\<close>

theorem expired_iff_elapsed_gt_ttl:
  assumes "validarCodigoChains e b = []"
    and "selectByEmail w (toLowerCase (body_correo_electronico b)) = user # others"
    and "fecha_codigo_verificacion user = Some t"
    and "verificarCodigoChains e b' = []"
    and "selectByEmail w (toLowerCase (body_email b')) = user' # others'"
    and "codigo_verificacion user' = Some h" and "h \<noteq> []"
    and "fecha_codigo_verificacion user' = Some t'"
  shows "(fst (validarCodigo e now b w) = Res 400 (Error El_codigo_ha_expirado)
            \<longleftrightarrow> now - t > 10 * 60 * 1000) \<and>
         (fst (verificarCodigo e now b' w) = Res 400 (Error El_codigo_ha_expirado_Solicite_uno_nuevo)
            \<longleftrightarrow> now - t' > 10 * 60 * 1000)"
  using assms
  by (simp add: validarCodigo_def verificarCodigo_def getTime_def falsy_def diffMinutes_gt_10
      split: option.splits)

theorem expired_iff_elapsed_gt_ttl_witness:
  "fst (validarCodigo (stubEnv Rejected) 1600001 (regBody ''550000'') pendingWorld)
     = Res 400 (Error El_codigo_ha_expirado) \<and>
   fst (validarCodigo (stubEnv Rejected) 1600000 (regBody ''550000'') pendingWorld)
     \<noteq> Res 400 (Error El_codigo_ha_expirado) \<and>
   fst (verificarCodigo (stubEnv Rejected) 1600001 (recBody ''550000'') pendingWorld)
     = Res 400 (Error El_codigo_ha_expirado_Solicite_uno_nuevo) \<and>
   fst (verificarCodigo (stubEnv Rejected) 1600000 (recBody ''550000'') pendingWorld)
     \<noteq> Res 400 (Error El_codigo_ha_expirado_Solicite_uno_nuevo)"
proof -
  have v: "validarCodigoChains (stubEnv Rejected) (regBody ''550000'') = []"
    by (simp add: validarCodigoChains_def regBody_def fixture_defs)
  have s: "selectByEmail pendingWorld (toLowerCase (body_correo_electronico (regBody ''550000'')))
             = pendingAuth # []"
    by (simp add: selectByEmail_def regBody_def fixture_defs toLowerCase_def)
  have v': "verificarCodigoChains (stubEnv Rejected) (recBody ''550000'') = []"
    by (simp add: verificarCodigoChains_def recBody_def fixture_defs)
  have s': "selectByEmail pendingWorld (toLowerCase (body_email (recBody ''550000'')))
             = pendingAuth # []"
    by (simp add: selectByEmail_def recBody_def fixture_defs toLowerCase_def)
  have f: "fecha_codigo_verificacion pendingAuth = Some 1000000"
    by (simp add: pendingAuth_def)
  have c: "codigo_verificacion pendingAuth = Some ''s1jwt:550000''"
    by (simp add: pendingAuth_def)
  have n: "''s1jwt:550000'' \<noteq> []" by simp
  show ?thesis
    using expired_iff_elapsed_gt_ttl [OF v s f v' s' c n f, of 1600001]
          expired_iff_elapsed_gt_ttl [OF v s f v' s' c n f, of 1600000]
    by simp
qed


section \<open>Password recovery\<close>

text \<open>
  C9. The verify step \<^verbatim>\<open>POST /verificarCodigo\<close> changes no state: whatever the request
  and its outcome (accepted, expired, wrong code, no challenge, unknown address, invalid
  fields), the tables and the mail sent are afterwards what they were before, so the stored
  hash and its time stamp are not cleared.
\<close>

theorem verificarCodigo_no_state_change:
  "snd (verificarCodigo e now b w) = w"
  by (simp add: verificarCodigo_def Let_def split: list.splits option.splits)

theorem verificarCodigo_no_state_change_witness:
  "verificarCodigo (stubEnv Rejected) 1000001 (recBody ''550000'') pendingWorld
     = (Res 200 (Message Codigo_verificado_correctamente_Puede_proceder), pendingWorld)"
proof -
  have "fst (verificarCodigo (stubEnv Rejected) 1000001 (recBody ''550000'') pendingWorld)
          = Res 200 (Message Codigo_verificado_correctamente_Puede_proceder)"
    by (simp add: verificarCodigo_def verificarCodigoChains_def recBody_def fixture_defs
        selectByEmail_def toLowerCase_def falsy_def getTime_def diffMinutes_gt_10)
  then show ?thesis
    using verificarCodigo_no_state_change [of "stubEnv Rejected" 1000001 "recBody ''550000''" pendingWorld]
    by (simp add: prod_eq_iff)
qed

text \<open>
  C5. \<^verbatim>\<open>POST /actualizarContrasena\<close> answers 200 only when (and whenever) the request
  passes validation, the password equals its confirmation, it matches the strength pattern
  (a lower-case letter, an upper-case letter, a digit, a special character, at least eight
  characters), the breach checker does not report it, an identity has the e-mail address, a
  challenge (hash and time stamp) is stored, and at most 15 minutes have passed since it was
  issued. On success the rows of the identity hold the hash of the new password, their two
  challenge columns are \<^verbatim>\<open>NULL\<close>, and nothing else is written.
\<close>

theorem actualizarContrasena_succeeds_only_when:
  "((\<exists>j. fst (actualizarContrasena e salt now b w) = Res 200 j) \<longleftrightarrow>
      actualizarContrasenaChains e b = [] \<and>
      body_password b = body_confirmPassword b \<and>
      passwordRegex (body_password b) \<and>
      \<not> isPasswordPwned e (body_password b) \<and>
      (\<exists>user others h t.
         selectByEmail w (toLowerCase (body_email b)) = user # others \<and>
         codigo_verificacion user = Some h \<and> h \<noteq> [] \<and>
         fecha_codigo_verificacion user = Some t \<and> now - t \<le> 15 * 60 * 1000)) \<and>
   (\<forall>j user others.
      fst (actualizarContrasena e salt now b w) = Res 200 j \<and>
      selectByEmail w (toLowerCase (body_email b)) = user # others \<longrightarrow>
      autenticacion_usuarios (snd (actualizarContrasena e salt now b w)) =
        map (\<lambda>a. if id_a a = id_a user
                  then a\<lparr>contrasena := Some (bcrypt_hash e (body_password b) salt),
                         codigo_verificacion := None,
                         fecha_codigo_verificacion := None,
                         fecha_actualizacion := Some now\<rparr>
                  else a) (autenticacion_usuarios w) \<and>
      perfil_usuarios (snd (actualizarContrasena e salt now b w)) = perfil_usuarios w \<and>
      outbox (snd (actualizarContrasena e salt now b w)) = outbox w \<and>
      (\<exists>others'.
         selectByEmail (snd (actualizarContrasena e salt now b w)) (toLowerCase (body_email b))
           = user\<lparr>contrasena := Some (bcrypt_hash e (body_password b) salt),
                  codigo_verificacion := None,
                  fecha_codigo_verificacion := None,
                  fecha_actualizacion := Some now\<rparr> # others'))"
  (is "(?ok \<longleftrightarrow> ?cond) \<and> ?effect")
proof -
  have only_when: ?cond if ?ok
  proof -
    from that obtain j where "fst (actualizarContrasena e salt now b w) = Res 200 j" ..
    from actualizarContrasena_200 [OF this] show ?thesis by blast
  qed
  have if_all: ?ok if ?cond
    using that actualizarContrasena_ok by blast
  have ?effect
  proof (intro allI impI)
    fix j and user :: auth_row and others
    let ?clear = "\<lambda>a::auth_row. a\<lparr>contrasena := Some (bcrypt_hash e (body_password b) salt),
                        codigo_verificacion := None,
                        fecha_codigo_verificacion := None,
                        fecha_actualizacion := Some now\<rparr>"
    let ?w' = "snd (actualizarContrasena e salt now b w)"
    assume a: "fst (actualizarContrasena e salt now b w) = Res 200 j \<and>
      selectByEmail w (toLowerCase (body_email b)) = user # others"
    from actualizarContrasena_200 [of e salt now b w j] a
    have upd: "?w' = updateAuth (id_a user) ?clear w"
      by auto
    have "selectByEmail (updateAuth (id_a user) ?clear w) (toLowerCase (body_email b))
            = map (\<lambda>a. if id_a a = id_a user then ?clear a else a)
                (selectByEmail w (toLowerCase (body_email b)))"
      by (rule selectByEmail_updateAuth) simp
    with a have sel: "selectByEmail (updateAuth (id_a user) ?clear w) (toLowerCase (body_email b))
            = ?clear user # map (\<lambda>a. if id_a a = id_a user then ?clear a else a) others"
      by simp
    show "autenticacion_usuarios ?w' =
        map (\<lambda>a. if id_a a = id_a user then ?clear a else a) (autenticacion_usuarios w) \<and>
      perfil_usuarios ?w' = perfil_usuarios w \<and>
      outbox ?w' = outbox w \<and>
      (\<exists>others'. selectByEmail ?w' (toLowerCase (body_email b)) = ?clear user # others')"
      unfolding upd using sel by (simp add: updateAuth_def)
  qed
  with only_when if_all show ?thesis by blast
qed

theorem actualizarContrasena_succeeds_only_when_witness:
  "fst (actualizarContrasena (stubEnv (Response (rangeBody ''0''))) ''s2'' 1900000 resetBody pendingWorld)
     = Res 200 (Message Contrasena_actualizada_exitosamente) \<and>
   map contrasena (autenticacion_usuarios
      (snd (actualizarContrasena (stubEnv (Response (rangeBody ''0''))) ''s2'' 1900000 resetBody pendingWorld)))
     = [Some ''s2Password1!''] \<and>
   map codigo_verificacion (autenticacion_usuarios
      (snd (actualizarContrasena (stubEnv (Response (rangeBody ''0''))) ''s2'' 1900000 resetBody pendingWorld)))
     = [None] \<and>
   map fecha_codigo_verificacion (autenticacion_usuarios
      (snd (actualizarContrasena (stubEnv (Response (rangeBody ''0''))) ''s2'' 1900000 resetBody pendingWorld)))
     = [None] \<and>
   fst (actualizarContrasena (stubEnv (Response (rangeBody ''0''))) ''s2'' 1900001 resetBody pendingWorld)
     = Res 400 (Error El_proceso_de_recuperacion_ha_expirado)"
proof -
  let ?e = "stubEnv (Response (rangeBody ''0''))"
  have b: "body_email resetBody = ''a@b.com''" "body_password resetBody = ''Password1!''"
    "body_confirmPassword resetBody = ''Password1!''"
    by (simp_all add: resetBody_def emptyBody_def)
  have p: "codigo_verificacion pendingAuth = Some ''s1jwt:550000''"
    "fecha_codigo_verificacion pendingAuth = Some 1000000"
    by (simp_all add: pendingAuth_def)
  have h: "bcrypt_hash ?e ''Password1!'' ''s2'' = ''s2Password1!''"
    by (simp add: stubEnv_def)
  note fact = actualizarContrasena_succeeds_only_when [of ?e "''s2''" _ resetBody pendingWorld]
  have ok: "\<exists>j. fst (actualizarContrasena ?e ''s2'' 1900000 resetBody pendingWorld) = Res 200 j"
    using fact [of 1900000] resetBody_valid Password1_regex Password1_not_pwned select_pending b p
    by simp
  then obtain j where
    j: "fst (actualizarContrasena ?e ''s2'' 1900000 resetBody pendingWorld) = Res 200 j" ..
  with fact [of 1900000] select_pending b
  have "autenticacion_usuarios (snd (actualizarContrasena ?e ''s2'' 1900000 resetBody pendingWorld))
          = map (\<lambda>a. if id_a a = id_a pendingAuth
                      then a\<lparr>contrasena := Some ''s2Password1!'',
                             codigo_verificacion := None,
                             fecha_codigo_verificacion := None,
                             fecha_actualizacion := Some 1900000\<rparr>
                      else a) (autenticacion_usuarios pendingWorld)"
    by (simp add: h)
  then have state: "map contrasena (autenticacion_usuarios
        (snd (actualizarContrasena ?e ''s2'' 1900000 resetBody pendingWorld))) = [Some ''s2Password1!'']"
      "map codigo_verificacion (autenticacion_usuarios
        (snd (actualizarContrasena ?e ''s2'' 1900000 resetBody pendingWorld))) = [None]"
      "map fecha_codigo_verificacion (autenticacion_usuarios
        (snd (actualizarContrasena ?e ''s2'' 1900000 resetBody pendingWorld))) = [None]"
    by (simp_all add: pendingWorld_def seedWorld_def)
  have "\<not> (\<exists>j. fst (actualizarContrasena ?e ''s2'' 1900001 resetBody pendingWorld) = Res 200 j)"
    using fact [of 1900001] select_pending b p
    by simp
  then show ?thesis
    using ok state resetBody_valid [of "Response (rangeBody ''0'')"] Password1_regex
      Password1_not_pwned select_pending b p
    by (simp add: actualizarContrasena_def falsy_def getTime_def diffMinutes_gt_15)
qed


section \<open>Single use\<close>

text \<open>
  The registration step \<^verbatim>\<open>POST /validarCodigo\<close> only sets \<^verbatim>\<open>verificado\<close>: when it
  accepts a code it leaves the hash and the time stamp of every identity as they were, and a
  later submission is answered as it would have been before.
\<close>

lemma validarCodigo_keeps_challenge:
  assumes "fst (validarCodigo e now b w) = Res 200 j"
    and "w' = snd (validarCodigo e now b w)"
  shows "map codigo_verificacion (autenticacion_usuarios w')
           = map codigo_verificacion (autenticacion_usuarios w) \<and>
         map fecha_codigo_verificacion (autenticacion_usuarios w')
           = map fecha_codigo_verificacion (autenticacion_usuarios w) \<and>
         fst (validarCodigo e now' b' w') = fst (validarCodigo e now' b' w)"
proof -
  from validarCodigo_200 [OF assms(1)] assms(2)
  obtain user :: auth_row where "w' = updateAuth (id_a user) (\<lambda>a. a\<lparr>verificado := 1\<rparr>) w"
    by auto
  then show ?thesis
    by (simp add: challenge_after_verificado validarCodigo_after_verificado)
qed

text \<open>
  C1 as the code has it. In the password recovery flow a challenge is single-use: once
  \<^verbatim>\<open>POST /actualizarContrasena\<close> has succeeded, the stored hash and its time stamp are
  cleared for the identity, so that a later \<^verbatim>\<open>POST /verificarCodigo\<close> for it, with any
  code, and a repeated \<^verbatim>\<open>POST /actualizarContrasena\<close> get the 400 response that no
  challenge is stored, and change nothing.
\<close>

theorem challenge_cleared_by_password_change:
  assumes ok: "fst (actualizarContrasena e salt now b w) = Res 200 j"
    and w': "w' = snd (actualizarContrasena e salt now b w)"
  shows "(\<exists>user others.
            selectByEmail w' (toLowerCase (body_email b)) = user # others \<and>
            codigo_verificacion user = None \<and> fecha_codigo_verificacion user = None) \<and>
         (verificarCodigoChains e b' = [] \<and>
          toLowerCase (body_email b') = toLowerCase (body_email b) \<longrightarrow>
            verificarCodigo e now' b' w'
              = (Res 400 (Error No_se_ha_solicitado_recuperacion_de_contrasena), w')) \<and>
         actualizarContrasena e salt' now' b w'
           = (Res 400 (Error Debe_verificar_el_codigo_de_recuperacion), w')"
proof (intro conjI impI)
  let ?clear = "\<lambda>a::auth_row. a\<lparr>contrasena := Some (bcrypt_hash e (body_password b) salt),
                        codigo_verificacion := None,
                        fecha_codigo_verificacion := None,
                        fecha_actualizacion := Some now\<rparr>"
  from actualizarContrasena_200 [OF ok] w'
  obtain user others where
    pre: "actualizarContrasenaChains e b = []" "body_password b = body_confirmPassword b"
      "passwordRegex (body_password b)" "\<not> isPasswordPwned e (body_password b)"
    and sel: "selectByEmail w (toLowerCase (body_email b)) = user # others"
    and upd: "w' = updateAuth (id_a user) ?clear w"
    by blast
  have "selectByEmail (updateAuth (id_a user) ?clear w) (toLowerCase (body_email b))
          = map (\<lambda>a. if id_a a = id_a user then ?clear a else a) (user # others)"
    unfolding sel [symmetric] by (rule selectByEmail_updateAuth) simp
  with upd have sel': "selectByEmail w' (toLowerCase (body_email b))
          = ?clear user # map (\<lambda>a. if id_a a = id_a user then ?clear a else a) others"
    by simp
  then show "\<exists>user others.
               selectByEmail w' (toLowerCase (body_email b)) = user # others \<and>
               codigo_verificacion user = None \<and> fecha_codigo_verificacion user = None"
    by simp
  show "actualizarContrasena e salt' now' b w'
          = (Res 400 (Error Debe_verificar_el_codigo_de_recuperacion), w')"
    using pre sel' by (simp add: actualizarContrasena_def falsy_def)
  assume "verificarCodigoChains e b' = [] \<and>
          toLowerCase (body_email b') = toLowerCase (body_email b)"
  with sel' show "verificarCodigo e now' b' w'
                    = (Res 400 (Error No_se_ha_solicitado_recuperacion_de_contrasena), w')"
    by (simp add: verificarCodigo_def falsy_def)
qed

theorem challenge_cleared_by_password_change_witness:
  "verificarCodigo (stubEnv (Response (rangeBody ''0''))) 1300001 (recBody ''550000'')
     (snd (actualizarContrasena (stubEnv (Response (rangeBody ''0''))) ''s2'' 1300000 resetBody pendingWorld))
     = (Res 400 (Error No_se_ha_solicitado_recuperacion_de_contrasena),
        snd (actualizarContrasena (stubEnv (Response (rangeBody ''0''))) ''s2'' 1300000 resetBody pendingWorld)) \<and>
   actualizarContrasena (stubEnv (Response (rangeBody ''0''))) ''s3'' 1300001 resetBody
     (snd (actualizarContrasena (stubEnv (Response (rangeBody ''0''))) ''s2'' 1300000 resetBody pendingWorld))
     = (Res 400 (Error Debe_verificar_el_codigo_de_recuperacion),
        snd (actualizarContrasena (stubEnv (Response (rangeBody ''0''))) ''s2'' 1300000 resetBody pendingWorld))"
proof -
  let ?e = "stubEnv (Response (rangeBody ''0''))"
  have b: "body_email resetBody = ''a@b.com''" "body_password resetBody = ''Password1!''"
    "body_confirmPassword resetBody = ''Password1!''" "body_email (recBody ''550000'') = ''a@b.com''"
    by (simp_all add: resetBody_def recBody_def emptyBody_def)
  have p: "codigo_verificacion pendingAuth = Some ''s1jwt:550000''"
    "fecha_codigo_verificacion pendingAuth = Some 1000000"
    by (simp_all add: pendingAuth_def)
  have changed: "fst (actualizarContrasena ?e ''s2'' 1300000 resetBody pendingWorld)
                   = Res 200 (Message Contrasena_actualizada_exitosamente)"
    using resetBody_valid [of "Response (rangeBody ''0'')"] Password1_regex Password1_not_pwned
      select_pending b p
    by (simp add: actualizarContrasena_def falsy_def getTime_def diffMinutes_gt_15)
  show ?thesis
    using challenge_cleared_by_password_change
      [OF changed refl, where b' = "recBody ''550000''" and now' = 1300001 and salt' = "''s3''"]
      recBody_valid [of "Response (rangeBody ''0'')"] b
    by simp
qed

text \<open>
  C1 as stated fails for registration: the code that \<^verbatim>\<open>POST /validarCodigo\<close> has accepted
  is still stored afterwards and is accepted a second time.
\<close>

theorem validarCodigo_accepts_the_code_again:
  "fst (validarCodigo (stubEnv Rejected) 1000001 (regBody ''550000'') pendingWorld)
     = Res 200 (Message Codigo_verificado_correctamente) \<and>
   map codigo_verificacion (autenticacion_usuarios
       (snd (validarCodigo (stubEnv Rejected) 1000001 (regBody ''550000'') pendingWorld)))
     = [Some ''s1jwt:550000''] \<and>
   fst (validarCodigo (stubEnv Rejected) 1000002 (regBody ''550000'')
         (snd (validarCodigo (stubEnv Rejected) 1000001 (regBody ''550000'') pendingWorld)))
     = Res 200 (Message Codigo_verificado_correctamente)"
  by (simp add: validarCodigo_def validarCodigoChains_def regBody_def fixture_defs
      selectByEmail_def toLowerCase_def getTime_def updateAuth_def)

end
